theory Spec2Isabelle
  imports Main
begin

section \<open>Strings\<close>

text \<open>
  Python's \<open>str\<close> is a sequence of code points. It is modelled by \<open>string\<close>, each
  \<open>char\<close> read as one code point in the range U+0000..U+00FF; text with code points
  above that range is outside the model. \<open>is_space\<close> is \<open>str.isspace\<close> on one
  character of that range, which is the set of characters \<open>str.strip()\<close> removes.
\<close>

definition is_space :: "char \<Rightarrow> bool" where
  "is_space c =
     (let n = (of_char c :: nat)
      in (9 \<le> n \<and> n \<le> 13) \<or> (28 \<le> n \<and> n \<le> 32) \<or> n = 133 \<or> n = 160)"

definition lstrip :: "string \<Rightarrow> string" where
  "lstrip s = dropWhile is_space s"

definition rstrip :: "string \<Rightarrow> string" where
  "rstrip s = rev (dropWhile is_space (rev s))"

definition strip :: "string \<Rightarrow> string" where
  "strip s = rstrip (lstrip s)"

definition startswith :: "string \<Rightarrow> string \<Rightarrow> bool" where
  "startswith s p = (take (length p) s = p)"

text \<open>\<open>needle in hay\<close> on strings: some suffix of \<open>hay\<close> starts with \<open>needle\<close>.\<close>

fun contains :: "string \<Rightarrow> string \<Rightarrow> bool" where
  "contains needle [] = (needle = [])"
| "contains needle (c # cs) = (startswith (c # cs) needle \<or> contains needle cs)"

section \<open>The subprocess bridge\<close>

text \<open>
  What \<open>subprocess.run(["rs-hack"] + args, capture_output=True, text=True, check=False)\<close>
  can do: raise \<open>FileNotFoundError\<close>, raise another exception (carried as its
  \<open>str(e)\<close>), or return a completed process with its exit code and captured streams.
  No timeout is passed, so a binary that never exits gives no outcome at all, and
  \<open>run_rs_hack\<close> no result; the properties below are about the calls that return.
\<close>

datatype run_outcome =
    FileNotFoundError
  | OtherException string
  | CompletedProcess (returncode: int) (stdout: string) (stderr: string)

text \<open>
  What \<open>json.loads\<close> can do on a string: return the decoded value, raise
  \<open>json.JSONDecodeError\<close> (the only exception the inner handler swallows), or raise
  some other exception, which reaches the outer \<open>except Exception\<close>.
\<close>

datatype 'j loads_outcome =
    Decoded 'j
  | JSONDecodeError
  | LoadsException string

text \<open>
  The world outside the module: the operating system's answer to a command line, and
  the two functions of the standard \<open>json\<close> library that the module calls. The type
  \<open>'j\<close> is the type of decoded JSON values; \<open>json_dumps v\<close> is
  \<open>json.dumps(v, indent=2)\<close>, with \<open>None\<close> for Python's \<open>None\<close>, and is taken to
  return a string on every value it is given.
\<close>

record 'j env =
  subprocess_run :: "string list \<Rightarrow> run_outcome"
  json_loads :: "string \<Rightarrow> 'j loads_outcome"
  json_dumps :: "'j option \<Rightarrow> string"

text \<open>
  The dictionary \<open>run_rs_hack\<close> returns. Its keys are drawn from \<open>"success"\<close>,
  \<open>"data"\<close>, \<open>"output"\<close> and \<open>"error"\<close>, each with a fixed value type;
  \<open>"success"\<close> is in every dictionary the function builds, and a key that is absent
  is \<open>None\<close> here (the key \<open>"output"\<close> is the field \<open>output_text\<close>).
\<close>

record 'j result =
  success :: bool
  data :: "'j option"
  output_text :: "string option"
  error :: "string option"

definition run_rs_hack :: "'j env \<Rightarrow> string list \<Rightarrow> 'j result" where
  "run_rs_hack e args =
     (case subprocess_run e (''rs-hack'' # args) of
        FileNotFoundError \<Rightarrow>
          \<lparr>success = False, data = None, output_text = None, error = Some ''rs-hack not found. Install with: cargo install rs-hack''\<rparr>
      | OtherException msg \<Rightarrow>
          \<lparr>success = False, data = None, output_text = None, error = Some msg\<rparr>
      | CompletedProcess rc out err \<Rightarrow>
          (let outp = strip out;
               by_returncode =
                 (if rc = 0
                  then \<lparr>success = True, data = None, output_text = Some outp, error = None\<rparr>
                  else \<lparr>success = False, data = None, output_text = None,
                         error = Some (if strip err \<noteq> [] then strip err else strip out)\<rparr>)
           in if startswith outp ''{'' \<or> startswith outp ''[''
              then (case json_loads e outp of
                      Decoded d \<Rightarrow>
                        \<lparr>success = True, data = Some d, output_text = None, error = None\<rparr>
                    | JSONDecodeError \<Rightarrow> by_returncode
                    | LoadsException msg \<Rightarrow>
                        \<lparr>success = False, data = None, output_text = None, error = Some msg\<rparr>)
              else by_returncode))"

section \<open>Values the tools share\<close>

text \<open>
  The enumerated parameters (\<open>Literal[...]\<close> in the signatures) and the strings they
  are forwarded as.
\<close>

datatype format = Fmt_snippets | Fmt_locations | Fmt_json

fun format_str :: "format \<Rightarrow> string" where
  "format_str Fmt_snippets = ''snippets''"
| "format_str Fmt_locations = ''locations''"
| "format_str Fmt_json = ''json''"

datatype node_type =
    Macro_call | Method_call | Function_call | Enum_usage
  | Struct_literal | Match_arm | Identifier | Type_ref

fun node_type_str :: "node_type \<Rightarrow> string" where
  "node_type_str Macro_call = ''macro-call''"
| "node_type_str Method_call = ''method-call''"
| "node_type_str Function_call = ''function-call''"
| "node_type_str Enum_usage = ''enum-usage''"
| "node_type_str Struct_literal = ''struct-literal''"
| "node_type_str Match_arm = ''match-arm''"
| "node_type_str Identifier = ''identifier''"
| "node_type_str Type_ref = ''type-ref''"

datatype action = Act_comment | Act_remove | Act_replace

fun action_str :: "action \<Rightarrow> string" where
  "action_str Act_comment = ''comment''"
| "action_str Act_remove = ''remove''"
| "action_str Act_replace = ''replace''"

datatype target_type = Target_struct | Target_enum

fun target_type_str :: "target_type \<Rightarrow> string" where
  "target_type_str Target_struct = ''struct''"
| "target_type_str Target_enum = ''enum''"

text \<open>
  A parameter of type \<open>str | None\<close> is a \<open>string option\<close>; leaving it out of the call
  is \<open>None\<close>, its default. \<open>truthy p\<close> is the test \<open>if p:\<close>, which \<open>None\<close> and
  the empty string fail; \<open>the p\<close> is only read under that test.
\<close>

definition truthy :: "string option \<Rightarrow> bool" where
  "truthy p = (case p of None \<Rightarrow> False | Some v \<Rightarrow> v \<noteq> [])"

text \<open>\<open>a or b\<close> on two strings, and \<open>p or ""\<close> on an optional string.\<close>

definition str_or :: "string \<Rightarrow> string \<Rightarrow> string" where
  "str_or a b = (if a \<noteq> [] then a else b)"

definition or_empty :: "string option \<Rightarrow> string" where
  "or_empty p = (case p of None \<Rightarrow> [] | Some v \<Rightarrow> v)"

text \<open>
  \<open>result.get("output", "")\<close>, and \<open>f"Error: {result['error']}"\<close>, which raises
  \<open>KeyError\<close> on a dictionary without that key.
\<close>

datatype exn = KeyError string

definition get_output :: "'j result \<Rightarrow> string" where
  "get_output result = (case output_text result of None \<Rightarrow> [] | Some s \<Rightarrow> s)"

definition error_line :: "'j result \<Rightarrow> exn + string" where
  "error_line result =
     (case error result of
        None \<Rightarrow> Inl (KeyError ''error'')
      | Some m \<Rightarrow> Inr (''Error: '' @ m))"

text \<open>\<open>str(n)\<close> for a Python integer: decimal digits, with a minus sign when negative.\<close>

definition digit_char :: "nat \<Rightarrow> char" where
  "digit_char d = char_of (48 + d)"

function str_nat :: "nat \<Rightarrow> string" where
  "str_nat n = (if n < 10 then [digit_char n] else str_nat (n div 10) @ [digit_char (n mod 10)])"
  by pat_completeness auto
termination
  by (relation "measure id") auto

declare str_nat.simps [simp del]

definition str_int :: "int \<Rightarrow> string" where
  "str_int i = (if i < 0 then CHR ''-'' # str_nat (nat (- i)) else str_nat (nat i))"

section \<open>Inspection tools\<close>

definition inspect_struct_literals_args :: "string \<Rightarrow> string option \<Rightarrow> format \<Rightarrow> string list" where
  "inspect_struct_literals_args path name fmt =
     (let args = [''inspect'', ''--path'', path, ''--node-type'', ''struct-literal'',
                  ''--format'', format_str fmt];
          args = (if truthy name then args @ [''--name'', the name] else args)
      in args)"

definition inspect_struct_literals ::
  "'j env \<Rightarrow> string \<Rightarrow> string option \<Rightarrow> format \<Rightarrow> exn + string" where
  "inspect_struct_literals e path name fmt =
     (let result = run_rs_hack e (inspect_struct_literals_args path name fmt)
      in if success result
         then Inr (str_or (get_output result) (json_dumps e (data result)))
         else error_line result)"

definition inspect_match_arms_args :: "string \<Rightarrow> string option \<Rightarrow> format \<Rightarrow> string list" where
  "inspect_match_arms_args path name fmt =
     (let args = [''inspect'', ''--path'', path, ''--node-type'', ''match-arm'',
                  ''--format'', format_str fmt];
          args = (if truthy name then args @ [''--name'', the name] else args)
      in args)"

definition inspect_match_arms ::
  "'j env \<Rightarrow> string \<Rightarrow> string option \<Rightarrow> format \<Rightarrow> exn + string" where
  "inspect_match_arms e path name fmt =
     (let result = run_rs_hack e (inspect_match_arms_args path name fmt)
      in if success result
         then Inr (str_or (get_output result) (json_dumps e (data result)))
         else error_line result)"

definition inspect_enum_usage_args :: "string \<Rightarrow> string \<Rightarrow> format \<Rightarrow> string list" where
  "inspect_enum_usage_args path name fmt =
     [''inspect'', ''--path'', path, ''--node-type'', ''enum-usage'',
      ''--name'', name, ''--format'', format_str fmt]"

definition inspect_enum_usage ::
  "'j env \<Rightarrow> string \<Rightarrow> string \<Rightarrow> format \<Rightarrow> exn + string" where
  "inspect_enum_usage e path name fmt =
     (let result = run_rs_hack e (inspect_enum_usage_args path name fmt)
      in if success result
         then Inr (str_or (get_output result) (json_dumps e (data result)))
         else error_line result)"

definition inspect_macro_calls_args ::
  "string \<Rightarrow> string \<Rightarrow> string option \<Rightarrow> format \<Rightarrow> string list" where
  "inspect_macro_calls_args path name content_filter fmt =
     (let args = [''inspect'', ''--path'', path, ''--node-type'', ''macro-call'',
                  ''--name'', name, ''--format'', format_str fmt];
          args = (if truthy content_filter
                  then args @ [''--content-filter'', the content_filter] else args)
      in args)"

definition inspect_macro_calls ::
  "'j env \<Rightarrow> string \<Rightarrow> string \<Rightarrow> string option \<Rightarrow> format \<Rightarrow> exn + string" where
  "inspect_macro_calls e path name content_filter fmt =
     (let result = run_rs_hack e (inspect_macro_calls_args path name content_filter fmt)
      in if success result
         then Inr (str_or (get_output result) (json_dumps e (data result)))
         else error_line result)"

section \<open>Struct operations\<close>

definition add_struct_field_args :: "string \<Rightarrow> string \<Rightarrow> string \<Rightarrow> string option \<Rightarrow> string option \<Rightarrow> bool \<Rightarrow> string list" where
  "add_struct_field_args path struct_name field position literal_default apply =
     (let args = [''add-struct-field'', ''--path'', path, ''--struct-name'', struct_name,
                  ''--field'', field];
          args = (if truthy position then args @ [''--position'', the position] else args);
          args = (if truthy literal_default
                  then args @ [''--literal-default'', the literal_default] else args);
          args = (if apply then args @ [''--apply''] else args)
      in args)"

definition add_struct_field :: "'j env \<Rightarrow> string \<Rightarrow> string \<Rightarrow> string \<Rightarrow> string option \<Rightarrow> string option \<Rightarrow> bool \<Rightarrow> exn + string" where
  "add_struct_field e path struct_name field position literal_default apply =
     (let result = run_rs_hack e (add_struct_field_args path struct_name field position literal_default apply)
      in if success result
         then (let output = get_output result
               in if \<not> apply
                  then Inr (''DRY RUN - Preview of changes:\<newline>'' @ output @
                            ''\<newline>\<newline>Use apply=True to make changes.'')
                  else Inr (str_or output (''Successfully added struct field'')))
         else error_line result)"

definition update_struct_field_args :: "string \<Rightarrow> string \<Rightarrow> string \<Rightarrow> bool \<Rightarrow> string list" where
  "update_struct_field_args path struct_name field apply =
     (let args = [''update-struct-field'', ''--path'', path, ''--struct-name'', struct_name,
                  ''--field'', field];
          args = (if apply then args @ [''--apply''] else args)
      in args)"

definition update_struct_field :: "'j env \<Rightarrow> string \<Rightarrow> string \<Rightarrow> string \<Rightarrow> bool \<Rightarrow> exn + string" where
  "update_struct_field e path struct_name field apply =
     (let result = run_rs_hack e (update_struct_field_args path struct_name field apply)
      in if success result
         then (let output = get_output result
               in if \<not> apply
                  then Inr (''DRY RUN - Preview:\<newline>'' @ output @
                            ''\<newline>\<newline>Use apply=True to make changes.'')
                  else Inr (str_or output (''Successfully updated struct field'')))
         else error_line result)"

section \<open>Enum operations\<close>

definition add_enum_variant_args :: "string \<Rightarrow> string \<Rightarrow> string \<Rightarrow> bool \<Rightarrow> string list" where
  "add_enum_variant_args path enum_name variant apply =
     (let args = [''add-enum-variant'', ''--path'', path, ''--enum-name'', enum_name,
                  ''--variant'', variant];
          args = (if apply then args @ [''--apply''] else args)
      in args)"

definition add_enum_variant :: "'j env \<Rightarrow> string \<Rightarrow> string \<Rightarrow> string \<Rightarrow> bool \<Rightarrow> exn + string" where
  "add_enum_variant e path enum_name variant apply =
     (let result = run_rs_hack e (add_enum_variant_args path enum_name variant apply)
      in if success result
         then (let output = get_output result
               in if \<not> apply
                  then Inr (''DRY RUN - Preview:\<newline>'' @ output @
                            ''\<newline>\<newline>Use apply=True to make changes.'')
                  else Inr (str_or output (''Successfully added enum variant'')))
         else error_line result)"

definition rename_enum_variant_args :: "string \<Rightarrow> string \<Rightarrow> string \<Rightarrow> string \<Rightarrow> bool \<Rightarrow> string list" where
  "rename_enum_variant_args path enum_name old_variant new_variant apply =
     (let args = [''rename-enum-variant'', ''--paths'', path, ''--enum-name'', enum_name,
                  ''--old-variant'', old_variant, ''--new-variant'', new_variant];
          args = (if apply then args @ [''--apply''] else args)
      in args)"

definition rename_enum_variant :: "'j env \<Rightarrow> string \<Rightarrow> string \<Rightarrow> string \<Rightarrow> string \<Rightarrow> bool \<Rightarrow> exn + string" where
  "rename_enum_variant e path enum_name old_variant new_variant apply =
     (let result = run_rs_hack e (rename_enum_variant_args path enum_name old_variant new_variant apply)
      in if success result
         then (let output = get_output result
               in if \<not> apply
                  then Inr (''DRY RUN - Preview:\<newline>'' @ output @
                            ''\<newline>\<newline>Use apply=True to make changes.'')
                  else Inr (str_or output (''Successfully renamed '' @ old_variant @ '' to '' @ new_variant)))
         else error_line result)"

section \<open>Match operations\<close>

text \<open>The parameter \<open>function\<close> of the source is \<open>function_name\<close> here.\<close>

definition add_match_arm_args :: "string \<Rightarrow> string \<Rightarrow> string \<Rightarrow> string option \<Rightarrow> string option \<Rightarrow> bool \<Rightarrow> bool \<Rightarrow> string list" where
  "add_match_arm_args path pattern body function_name enum_name auto_detect apply =
     (let args = [''add-match-arm'', ''--path'', path];
          args =
            (if auto_detect
             then (let args = args @ [''--auto-detect'', ''--enum-name'', or_empty enum_name,
                                      ''--body'', body]
                   in if truthy function_name
                      then args @ [''--function'', the function_name] else args)
             else (let args = args @ [''--pattern'', pattern, ''--body'', body]
                   in if truthy function_name
                      then args @ [''--function'', the function_name] else args));
          args = (if apply then args @ [''--apply''] else args)
      in args)"

definition add_match_arm :: "'j env \<Rightarrow> string \<Rightarrow> string \<Rightarrow> string \<Rightarrow> string option \<Rightarrow> string option \<Rightarrow> bool \<Rightarrow> bool \<Rightarrow> exn + string" where
  "add_match_arm e path pattern body function_name enum_name auto_detect apply =
     (let result = run_rs_hack e (add_match_arm_args path pattern body function_name enum_name auto_detect apply)
      in if success result
         then (let output = get_output result
               in if \<not> apply
                  then Inr (''DRY RUN - Preview:\<newline>'' @ output @
                            ''\<newline>\<newline>Use apply=True to make changes.'')
                  else Inr (str_or output (''Successfully added match arm(s)'')))
         else error_line result)"

section \<open>Transform\<close>

definition transform_args :: "string \<Rightarrow> node_type \<Rightarrow> action \<Rightarrow> string option \<Rightarrow> string option \<Rightarrow> string option \<Rightarrow> bool \<Rightarrow> string list" where
  "transform_args path node_type action name content_filter replacement apply =
     (let args = [''transform'', ''--path'', path, ''--node-type'', node_type_str node_type,
                  ''--action'', action_str action];
          args = (if truthy name then args @ [''--name'', the name] else args);
          args = (if truthy content_filter
                  then args @ [''--content-filter'', the content_filter] else args);
          args = (if action_str action = ''replace'' \<and> truthy replacement
                  then args @ [''--with'', the replacement] else args);
          args = (if apply then args @ [''--apply''] else args)
      in args)"

definition transform :: "'j env \<Rightarrow> string \<Rightarrow> node_type \<Rightarrow> action \<Rightarrow> string option \<Rightarrow> string option \<Rightarrow> string option \<Rightarrow> bool \<Rightarrow> exn + string" where
  "transform e path node_type action name content_filter replacement apply =
     (let result = run_rs_hack e (transform_args path node_type action name content_filter replacement apply)
      in if success result
         then (let output = get_output result
               in if \<not> apply
                  then Inr (''DRY RUN - Preview:\<newline>'' @ output @
                            ''\<newline>\<newline>Use apply=True to make changes.'')
                  else Inr (str_or output (''Successfully performed '' @ action_str action @ '' operation'')))
         else error_line result)"

section \<open>Derive\<close>

definition add_derive_args :: "string \<Rightarrow> target_type \<Rightarrow> string \<Rightarrow> string \<Rightarrow> string option \<Rightarrow> bool \<Rightarrow> string list" where
  "add_derive_args path target_type name derives where_filter apply =
     (let args = [''add-derive'', ''--path'', path, ''--target-type'', target_type_str target_type,
                  ''--name'', name, ''--derives'', derives];
          args = (if truthy where_filter then args @ [''--where'', the where_filter] else args);
          args = (if apply then args @ [''--apply''] else args)
      in args)"

definition add_derive :: "'j env \<Rightarrow> string \<Rightarrow> target_type \<Rightarrow> string \<Rightarrow> string \<Rightarrow> string option \<Rightarrow> bool \<Rightarrow> exn + string" where
  "add_derive e path target_type name derives where_filter apply =
     (let result = run_rs_hack e (add_derive_args path target_type name derives where_filter apply)
      in if success result
         then (let output = get_output result
               in if \<not> apply
                  then Inr (''DRY RUN - Preview:\<newline>'' @ output @
                            ''\<newline>\<newline>Use apply=True to make changes.'')
                  else Inr (str_or output (''Successfully added derives'')))
         else error_line result)"

section \<open>History and revert\<close>

definition show_history_args :: "int \<Rightarrow> string list" where
  "show_history_args limit = [''history'', ''--limit'', str_int limit]"

definition show_history :: "'j env \<Rightarrow> int \<Rightarrow> exn + string" where
  "show_history e limit =
     (let result = run_rs_hack e (show_history_args limit)
      in if success result
         then Inr (str_or (get_output result) ''No history available'')
         else error_line result)"

definition revert_operation_args :: "string \<Rightarrow> bool \<Rightarrow> string list" where
  "revert_operation_args run_id force =
     (let args = [''revert'', run_id];
          args = (if force then args @ [''--force''] else args)
      in args)"

definition revert_operation :: "'j env \<Rightarrow> string \<Rightarrow> bool \<Rightarrow> exn + string" where
  "revert_operation e run_id force =
     (let result = run_rs_hack e (revert_operation_args run_id force)
      in if success result
         then Inr (str_or (get_output result) (''Successfully reverted operation '' @ run_id))
         else error_line result)"

section \<open>The tool registry\<close>

text \<open>
  A call of one of the thirteen functions registered with \<open>@mcp.tool()\<close>, with its
  parameters in the order of the signature, and the function it runs.
\<close>

datatype tool_call =
    Inspect_struct_literals string "string option" format
  | Inspect_match_arms string "string option" format
  | Inspect_enum_usage string string format
  | Inspect_macro_calls string string "string option" format
  | Add_struct_field string string string "string option" "string option" bool
  | Update_struct_field string string string bool
  | Add_enum_variant string string string bool
  | Rename_enum_variant string string string string bool
  | Add_match_arm string string string "string option" "string option" bool bool
  | Transform string node_type action "string option" "string option" "string option" bool
  | Add_derive string target_type string string "string option" bool
  | Show_history int
  | Revert_operation string bool

fun tool_args :: "tool_call \<Rightarrow> string list" where
  "tool_args (Inspect_struct_literals p n f) = inspect_struct_literals_args p n f"
| "tool_args (Inspect_match_arms p n f) = inspect_match_arms_args p n f"
| "tool_args (Inspect_enum_usage p n f) = inspect_enum_usage_args p n f"
| "tool_args (Inspect_macro_calls p n c f) = inspect_macro_calls_args p n c f"
| "tool_args (Add_struct_field p s f pos d a) = add_struct_field_args p s f pos d a"
| "tool_args (Update_struct_field p s f a) = update_struct_field_args p s f a"
| "tool_args (Add_enum_variant p n v a) = add_enum_variant_args p n v a"
| "tool_args (Rename_enum_variant p n ov nv a) = rename_enum_variant_args p n ov nv a"
| "tool_args (Add_match_arm p pat b fn en ad a) = add_match_arm_args p pat b fn en ad a"
| "tool_args (Transform p nt act n c r a) = transform_args p nt act n c r a"
| "tool_args (Add_derive p t n d w a) = add_derive_args p t n d w a"
| "tool_args (Show_history l) = show_history_args l"
| "tool_args (Revert_operation r f) = revert_operation_args r f"

fun call_tool :: "'j env \<Rightarrow> tool_call \<Rightarrow> exn + string" where
  "call_tool e (Inspect_struct_literals p n f) = inspect_struct_literals e p n f"
| "call_tool e (Inspect_match_arms p n f) = inspect_match_arms e p n f"
| "call_tool e (Inspect_enum_usage p n f) = inspect_enum_usage e p n f"
| "call_tool e (Inspect_macro_calls p n c f) = inspect_macro_calls e p n c f"
| "call_tool e (Add_struct_field p s f pos d a) = add_struct_field e p s f pos d a"
| "call_tool e (Update_struct_field p s f a) = update_struct_field e p s f a"
| "call_tool e (Add_enum_variant p n v a) = add_enum_variant e p n v a"
| "call_tool e (Rename_enum_variant p n ov nv a) = rename_enum_variant e p n ov nv a"
| "call_tool e (Add_match_arm p pat b fn en ad a) = add_match_arm e p pat b fn en ad a"
| "call_tool e (Transform p nt act n c r a) = transform e p nt act n c r a"
| "call_tool e (Add_derive p t n d w a) = add_derive e p t n d w a"
| "call_tool e (Show_history l) = show_history e l"
| "call_tool e (Revert_operation r f) = revert_operation e r f"


section \<open>The three shapes of a result\<close>

definition success_with_data :: "'j result \<Rightarrow> bool" where
  "success_with_data r \<longleftrightarrow>
     success r \<and> data r \<noteq> None \<and> output_text r = None \<and> error r = None"

definition success_with_text :: "'j result \<Rightarrow> bool" where
  "success_with_text r \<longleftrightarrow>
     success r \<and> data r = None \<and> output_text r \<noteq> None \<and> error r = None"

definition failure_with_message :: "'j result \<Rightarrow> bool" where
  "failure_with_message r \<longleftrightarrow>
     \<not> success r \<and> data r = None \<and> output_text r = None \<and> error r \<noteq> None"

section \<open>A sample environment\<close>

text \<open>
  A concrete environment to run the definitions in. Its JSON values are the empty
  object and the empty array; \<open>sample_loads\<close> decodes exactly their two texts and
  raises \<open>JSONDecodeError\<close> on anything else, so it stands for \<open>json.loads\<close> only on
  the texts \<open>{}\<close> and \<open>[]\<close> and on texts that are not JSON at all.
  \<open>sample_env argv outcome\<close> answers the command line \<open>argv\<close> with \<open>outcome\<close>
  and has no other command line succeed.
\<close>

datatype json = Empty_object | Empty_array

definition sample_loads :: "string \<Rightarrow> json loads_outcome" where
  "sample_loads s =
     (if s = ''{}'' then Decoded Empty_object
      else if s = ''[]'' then Decoded Empty_array
      else JSONDecodeError)"

fun sample_dumps :: "json option \<Rightarrow> string" where
  "sample_dumps None = ''null''"
| "sample_dumps (Some Empty_object) = ''{}''"
| "sample_dumps (Some Empty_array) = ''[]''"

definition sample_env :: "string list \<Rightarrow> run_outcome \<Rightarrow> json env" where
  "sample_env argv outcome =
     \<lparr>subprocess_run = (\<lambda>a. if a = argv then outcome
                               else OtherException ''unexpected command line''),
      json_loads = sample_loads,
      json_dumps = sample_dumps\<rparr>"

section \<open>Texts nested too deeply for the decoder\<close>

text \<open>
  \<open>nested_arrays n\<close> is \<open>n\<close> opening brackets followed by \<open>n\<close> closing ones: for
  \<open>n \<ge> 1\<close> a JSON text, the empty array inside \<open>n - 1\<close> arrays.
  \<open>open_arrays n\<close> is the opening brackets alone, which is not a JSON text.
  CPython's \<open>json.loads\<close> descends once per opened array and, on a text that opens
  1200 of them, raises \<open>RecursionError\<close> before it reaches the end of the text; that
  exception is not a \<open>JSONDecodeError\<close>. \<open>deep_loads\<close> stands for \<open>json.loads\<close>
  on those two texts, and is \<open>sample_loads\<close> elsewhere.
\<close>

definition nested_arrays :: "nat \<Rightarrow> string" where
  "nested_arrays n = replicate n CHR ''['' @ replicate n CHR '']''"

definition open_arrays :: "nat \<Rightarrow> string" where
  "open_arrays n = replicate n CHR ''[''"

definition recursion_error :: string where
  "recursion_error =
     ''maximum recursion depth exceeded while decoding a JSON array from a unicode string''"

definition deep_loads :: "string \<Rightarrow> json loads_outcome" where
  "deep_loads s =
     (if s = nested_arrays 1200 \<or> s = open_arrays 1200
      then LoadsException recursion_error
      else sample_loads s)"

definition deep_env :: "string list \<Rightarrow> run_outcome \<Rightarrow> json env" where
  "deep_env argv outcome =
     \<lparr>subprocess_run = (\<lambda>a. if a = argv then outcome
                               else OtherException ''unexpected command line''),
      json_loads = deep_loads,
      json_dumps = sample_dumps\<rparr>"

section \<open>The flag rule for optional strings\<close>

text \<open>
  The rule as the specification words it: an optional string parameter becomes a flag
  and its value, included only when the parameter is provided and non-empty.
\<close>

definition flag_pair :: "string \<Rightarrow> string option \<Rightarrow> string list" where
  "flag_pair flag p = (case p of None \<Rightarrow> [] | Some v \<Rightarrow> if v = [] then [] else [flag, v])"

section \<open>Trimming of the sample texts\<close>

lemma strip_padded_object: "strip '' {} \<newline>'' = ''{}''"
  by (simp add: strip_def lstrip_def rstrip_def is_space_def)

lemma strip_broken_object: "strip ''{oops\<newline>'' = ''{oops''"
  by (simp add: strip_def lstrip_def rstrip_def is_space_def)

lemma strip_plain: "strip ''  no such file \<newline>'' = ''no such file''"
  by (simp add: strip_def lstrip_def rstrip_def is_space_def)

lemma strip_blank: "strip '' \<newline>'' = []"
  by (simp add: strip_def lstrip_def rstrip_def is_space_def)

lemma strip_empty: "strip [] = []"
  by (simp add: strip_def lstrip_def rstrip_def)

text \<open>A text that neither starts nor ends with white space is its own trimming.\<close>

lemma strip_no_space_ends:
  assumes "s \<noteq> []" and "\<not> is_space (hd s)" and "\<not> is_space (last s)"
  shows "strip s = s"
proof -
  from assms(1,2) have l: "lstrip s = s"
    by (cases s) (simp_all add: lstrip_def)
  from assms(1,3) have "dropWhile is_space (rev s) = rev s"
    by (cases "rev s") (simp_all add: hd_rev [symmetric])
  then have "rstrip s = s"
    by (simp add: rstrip_def)
  with l show ?thesis
    by (simp add: strip_def)
qed

lemma strip_nested_arrays: "0 < n \<Longrightarrow> strip (nested_arrays n) = nested_arrays n"
  by (rule strip_no_space_ends) (simp_all add: nested_arrays_def is_space_def hd_append)

lemma strip_open_arrays: "0 < n \<Longrightarrow> strip (open_arrays n) = open_arrays n"
  by (rule strip_no_space_ends) (simp_all add: open_arrays_def is_space_def)

lemma startswith_nested_arrays: "0 < n \<Longrightarrow> startswith (nested_arrays n) ''[''"
  by (cases n) (simp_all add: nested_arrays_def startswith_def)

lemma startswith_open_arrays: "0 < n \<Longrightarrow> startswith (open_arrays n) ''[''"
  by (cases n) (simp_all add: open_arrays_def startswith_def)

text \<open>The bridge on a run that prints one of the two deeply nested texts.\<close>

lemma deep_run:
  assumes "out = nested_arrays 1200 \<or> out = open_arrays 1200"
  shows "run_rs_hack (deep_env (''rs-hack'' # args) (CompletedProcess rc out err)) args
           = \<lparr>success = False, data = None, output_text = None, error = Some recursion_error\<rparr>"
proof -
  from assms have s: "strip out = out"
    by (auto simp add: strip_nested_arrays strip_open_arrays)
  from assms have b: "startswith out ''[''"
    by (auto simp add: startswith_nested_arrays startswith_open_arrays)
  from assms have d: "deep_loads out = LoadsException recursion_error"
    by (auto simp add: deep_loads_def)
  show ?thesis
    by (simp add: run_rs_hack_def deep_env_def s b d)
qed

section \<open>Properties of the subprocess bridge\<close>

text \<open>
  C1, as stated: whenever the binary runs to completion with a non-zero exit code, the
  bridge returns a failure whose message is the trimmed stderr, or the trimmed stdout
  when that is empty. It fails: the bridge looks at stdout before it looks at the exit
  code. Here the binary exits with code 1, its stdout is the JSON text \<open>{}\<close>, and
  the bridge returns success with the decoded object.
\<close>

theorem run_rs_hack_nonzero_exit_counterexample:
  "subprocess_run (sample_env [''rs-hack'', ''inspect''] (CompletedProcess 1 ''{}'' ''boom''))
       (''rs-hack'' # [''inspect''])
     = CompletedProcess 1 ''{}'' ''boom''
   \<and> (1::int) \<noteq> 0
   \<and> run_rs_hack (sample_env [''rs-hack'', ''inspect''] (CompletedProcess 1 ''{}'' ''boom''))
        [''inspect'']
     = \<lparr>success = True, data = Some Empty_object, output_text = None, error = None\<rparr>
   \<and> \<not> failure_with_message
         (run_rs_hack (sample_env [''rs-hack'', ''inspect''] (CompletedProcess 1 ''{}'' ''boom''))
            [''inspect''])"
  by (simp add: run_rs_hack_def sample_env_def sample_loads_def startswith_def
      failure_with_message_def strip_def lstrip_def rstrip_def is_space_def)

text \<open>
  C1, amended: when the binary runs to completion with a non-zero exit code, and the
  trimmed stdout does not start with \<open>{\<close> or \<open>[\<close> or its decoding raises
  \<open>JSONDecodeError\<close>, the bridge returns a failure whose message is the trimmed
  stderr, or the trimmed stdout when the trimmed stderr is empty.
\<close>

theorem run_rs_hack_nonzero_exit:
  assumes "subprocess_run e (''rs-hack'' # args) = CompletedProcess rc out err"
    and "rc \<noteq> 0"
    and "\<not> (startswith (strip out) ''{'' \<or> startswith (strip out) ''['')
         \<or> json_loads e (strip out) = JSONDecodeError"
  shows "run_rs_hack e args =
           \<lparr>success = False, data = None, output_text = None,
            error = Some (if strip err \<noteq> [] then strip err else strip out)\<rparr>"
  using assms by (auto simp add: run_rs_hack_def Let_def)

theorem run_rs_hack_nonzero_exit_witness:
  "run_rs_hack (sample_env [''rs-hack'', ''inspect'']
        (CompletedProcess 2 [] ''  no such file \<newline>'')) [''inspect'']
     = \<lparr>success = False, data = None, output_text = None, error = Some ''no such file''\<rparr>
   \<and> run_rs_hack (sample_env [''rs-hack'', ''inspect'']
        (CompletedProcess 2 ''{oops\<newline>'' '' \<newline>'')) [''inspect'']
     = \<lparr>success = False, data = None, output_text = None, error = Some ''{oops''\<rparr>"
proof -
  let ?e1 = "sample_env [''rs-hack'', ''inspect''] (CompletedProcess 2 [] ''  no such file \<newline>'')"
  let ?e2 = "sample_env [''rs-hack'', ''inspect''] (CompletedProcess 2 ''{oops\<newline>'' '' \<newline>'')"
  have a1: "subprocess_run ?e1 (''rs-hack'' # [''inspect''])
              = CompletedProcess 2 [] ''  no such file \<newline>''"
    by (simp add: sample_env_def)
  have a2: "(2::int) \<noteq> 0" by simp
  have a3: "\<not> (startswith (strip []) ''{'' \<or> startswith (strip []) ''['')
            \<or> json_loads ?e1 (strip []) = JSONDecodeError"
    by (simp add: strip_empty startswith_def)
  have b1: "subprocess_run ?e2 (''rs-hack'' # [''inspect''])
              = CompletedProcess 2 ''{oops\<newline>'' '' \<newline>''"
    by (simp add: sample_env_def)
  have b3: "\<not> (startswith (strip ''{oops\<newline>'') ''{'' \<or> startswith (strip ''{oops\<newline>'') ''['')
            \<or> json_loads ?e2 (strip ''{oops\<newline>'') = JSONDecodeError"
    by (simp add: strip_broken_object sample_env_def sample_loads_def)
  show ?thesis
    using run_rs_hack_nonzero_exit [OF a1 a2 a3] run_rs_hack_nonzero_exit [OF b1 a2 b3]
    by (simp add: strip_plain strip_blank strip_broken_object)
qed

text \<open>
  C2, as stated: whenever the trimmed stdout starts with \<open>{\<close> or \<open>[\<close> and is valid
  JSON, the bridge returns success with the decoded data, whatever the exit code. It
  fails on valid JSON that the decoder does not decode: the text of 1200 nested arrays
  is valid JSON, the decoder raises \<open>RecursionError\<close> on it, the inner handler
  catches \<open>JSONDecodeError\<close> only, and the bridge returns a failure with the text of
  the exception.
\<close>

theorem run_rs_hack_json_any_exit_counterexample:
  "nested_arrays 1200 = replicate 1200 CHR ''['' @ replicate 1200 CHR '']''
   \<and> subprocess_run
        (deep_env [''rs-hack'', ''inspect''] (CompletedProcess 0 (nested_arrays 1200) []))
        (''rs-hack'' # [''inspect''])
     = CompletedProcess 0 (nested_arrays 1200) []
   \<and> startswith (strip (nested_arrays 1200)) ''[''
   \<and> json_loads
        (deep_env [''rs-hack'', ''inspect''] (CompletedProcess 0 (nested_arrays 1200) []))
        (strip (nested_arrays 1200))
     = LoadsException recursion_error
   \<and> run_rs_hack
        (deep_env [''rs-hack'', ''inspect''] (CompletedProcess 0 (nested_arrays 1200) []))
        [''inspect'']
     = \<lparr>success = False, data = None, output_text = None, error = Some recursion_error\<rparr>
   \<and> \<not> success_with_data
         (run_rs_hack
            (deep_env [''rs-hack'', ''inspect''] (CompletedProcess 0 (nested_arrays 1200) []))
            [''inspect''])"
proof -
  have literal: "nested_arrays 1200 = replicate 1200 CHR ''['' @ replicate 1200 CHR '']''"
    by (simp only: nested_arrays_def)
  have run: "subprocess_run
        (deep_env [''rs-hack'', ''inspect''] (CompletedProcess 0 (nested_arrays 1200) []))
        (''rs-hack'' # [''inspect''])
     = CompletedProcess 0 (nested_arrays 1200) []
   \<and> startswith (strip (nested_arrays 1200)) ''[''
   \<and> json_loads
        (deep_env [''rs-hack'', ''inspect''] (CompletedProcess 0 (nested_arrays 1200) []))
        (strip (nested_arrays 1200))
     = LoadsException recursion_error
   \<and> run_rs_hack
        (deep_env [''rs-hack'', ''inspect''] (CompletedProcess 0 (nested_arrays 1200) []))
        [''inspect'']
     = \<lparr>success = False, data = None, output_text = None, error = Some recursion_error\<rparr>
   \<and> \<not> success_with_data
         (run_rs_hack
            (deep_env [''rs-hack'', ''inspect''] (CompletedProcess 0 (nested_arrays 1200) []))
            [''inspect''])"
    by (simp add: deep_run strip_nested_arrays startswith_nested_arrays success_with_data_def)
      (simp add: deep_env_def deep_loads_def)
  from literal run show ?thesis
    by (rule conjI)
qed

text \<open>
  C2, amended: when the trimmed stdout starts with \<open>{\<close> or \<open>[\<close> and \<open>json.loads\<close>
  returns a value for it, the bridge returns success with the decoded data, whatever
  the exit code \<open>rc\<close> is; the exit code is not consulted on this path.
\<close>

theorem run_rs_hack_json_any_exit:
  assumes "subprocess_run e (''rs-hack'' # args) = CompletedProcess rc out err"
    and "startswith (strip out) ''{'' \<or> startswith (strip out) ''[''"
    and "json_loads e (strip out) = Decoded d"
  shows "run_rs_hack e args =
           \<lparr>success = True, data = Some d, output_text = None, error = None\<rparr>"
  using assms by (simp add: run_rs_hack_def Let_def)

theorem run_rs_hack_json_any_exit_witness:
  "subprocess_run (sample_env [''rs-hack'', ''inspect''] (CompletedProcess 1 '' {} \<newline>'' ''warning''))
       (''rs-hack'' # [''inspect''])
     = CompletedProcess 1 '' {} \<newline>'' ''warning''
   \<and> startswith (strip '' {} \<newline>'') ''{''
   \<and> json_loads (sample_env [''rs-hack'', ''inspect''] (CompletedProcess 1 '' {} \<newline>'' ''warning''))
        (strip '' {} \<newline>'') = Decoded Empty_object
   \<and> run_rs_hack (sample_env [''rs-hack'', ''inspect''] (CompletedProcess 1 '' {} \<newline>'' ''warning''))
        [''inspect'']
     = \<lparr>success = True, data = Some Empty_object, output_text = None, error = None\<rparr>"
proof -
  have s: "strip '' {} \<newline>'' = ''{}''"
    by (simp add: strip_def lstrip_def rstrip_def is_space_def)
  have h1: "subprocess_run (sample_env [''rs-hack'', ''inspect''] (CompletedProcess 1 '' {} \<newline>'' ''warning''))
       (''rs-hack'' # [''inspect''])
     = CompletedProcess 1 '' {} \<newline>'' ''warning''"
    by (simp add: sample_env_def)
  have h2: "startswith (strip '' {} \<newline>'') ''{'' \<or> startswith (strip '' {} \<newline>'') ''[''"
    by (simp add: s startswith_def)
  have h3: "json_loads (sample_env [''rs-hack'', ''inspect''] (CompletedProcess 1 '' {} \<newline>'' ''warning''))
        (strip '' {} \<newline>'') = Decoded Empty_object"
    by (simp add: s sample_env_def sample_loads_def)
  show ?thesis
    using run_rs_hack_json_any_exit [OF h1 h2 h3] h1 h3 by (simp add: s startswith_def)
qed

text \<open>
  C3, as stated: when the binary exits with code 0 and the trimmed stdout starts with
  \<open>{\<close> or \<open>[\<close>, the bridge returns success with the decoded data if the text is
  valid JSON, and success with the trimmed text if it is not. It fails on a text that
  the decoder neither decodes nor rejects with \<open>JSONDecodeError\<close>: 1200 opening
  brackets are not valid JSON, the decoder raises \<open>RecursionError\<close> on them, and
  the bridge returns a failure, which is neither of the two success results.
\<close>

theorem run_rs_hack_exit_zero_json_counterexample:
  "open_arrays 1200 = replicate 1200 CHR ''[''
   \<and> subprocess_run
        (deep_env [''rs-hack'', ''inspect''] (CompletedProcess 0 (open_arrays 1200) []))
        (''rs-hack'' # [''inspect''])
     = CompletedProcess 0 (open_arrays 1200) []
   \<and> startswith (strip (open_arrays 1200)) ''[''
   \<and> json_loads
        (deep_env [''rs-hack'', ''inspect''] (CompletedProcess 0 (open_arrays 1200) []))
        (strip (open_arrays 1200))
     = LoadsException recursion_error
   \<and> run_rs_hack
        (deep_env [''rs-hack'', ''inspect''] (CompletedProcess 0 (open_arrays 1200) []))
        [''inspect'']
     = \<lparr>success = False, data = None, output_text = None, error = Some recursion_error\<rparr>
   \<and> \<not> success_with_data
         (run_rs_hack
            (deep_env [''rs-hack'', ''inspect''] (CompletedProcess 0 (open_arrays 1200) []))
            [''inspect''])
   \<and> \<not> success_with_text
         (run_rs_hack
            (deep_env [''rs-hack'', ''inspect''] (CompletedProcess 0 (open_arrays 1200) []))
            [''inspect''])"
proof -
  have literal: "open_arrays 1200 = replicate 1200 CHR ''[''"
    by (simp only: open_arrays_def)
  have run: "subprocess_run
        (deep_env [''rs-hack'', ''inspect''] (CompletedProcess 0 (open_arrays 1200) []))
        (''rs-hack'' # [''inspect''])
     = CompletedProcess 0 (open_arrays 1200) []
   \<and> startswith (strip (open_arrays 1200)) ''[''
   \<and> json_loads
        (deep_env [''rs-hack'', ''inspect''] (CompletedProcess 0 (open_arrays 1200) []))
        (strip (open_arrays 1200))
     = LoadsException recursion_error
   \<and> run_rs_hack
        (deep_env [''rs-hack'', ''inspect''] (CompletedProcess 0 (open_arrays 1200) []))
        [''inspect'']
     = \<lparr>success = False, data = None, output_text = None, error = Some recursion_error\<rparr>
   \<and> \<not> success_with_data
         (run_rs_hack
            (deep_env [''rs-hack'', ''inspect''] (CompletedProcess 0 (open_arrays 1200) []))
            [''inspect''])
   \<and> \<not> success_with_text
         (run_rs_hack
            (deep_env [''rs-hack'', ''inspect''] (CompletedProcess 0 (open_arrays 1200) []))
            [''inspect''])"
    by (simp add: deep_run strip_open_arrays startswith_open_arrays success_with_data_def success_with_text_def)
      (simp add: deep_env_def deep_loads_def)
  from literal run show ?thesis
    by (rule conjI)
qed

text \<open>
  C3, amended: when the binary exits with code 0 and the trimmed stdout starts with
  \<open>{\<close> or \<open>[\<close>: if \<open>json.loads\<close> returns a value for the text, the bridge
  returns success with the decoded data; if it raises \<open>JSONDecodeError\<close>, the bridge
  returns success with the trimmed stdout text; if it raises any other exception, the
  bridge returns a failure with the text of that exception.
\<close>

theorem run_rs_hack_exit_zero_json:
  assumes "subprocess_run e (''rs-hack'' # args) = CompletedProcess 0 out err"
    and "startswith (strip out) ''{'' \<or> startswith (strip out) ''[''"
  shows "(json_loads e (strip out) = Decoded d \<longrightarrow>
            run_rs_hack e args =
              \<lparr>success = True, data = Some d, output_text = None, error = None\<rparr>)
       \<and> (json_loads e (strip out) = JSONDecodeError \<longrightarrow>
            run_rs_hack e args =
              \<lparr>success = True, data = None, output_text = Some (strip out), error = None\<rparr>)
       \<and> (json_loads e (strip out) = LoadsException msg \<longrightarrow>
            run_rs_hack e args =
              \<lparr>success = False, data = None, output_text = None, error = Some msg\<rparr>)"
  using assms by (auto simp add: run_rs_hack_def Let_def)

theorem run_rs_hack_exit_zero_json_witness:
  "run_rs_hack (sample_env [''rs-hack'', ''inspect''] (CompletedProcess 0 '' {} \<newline>'' []))
        [''inspect'']
     = \<lparr>success = True, data = Some Empty_object, output_text = None, error = None\<rparr>
   \<and> run_rs_hack (sample_env [''rs-hack'', ''inspect''] (CompletedProcess 0 ''{oops\<newline>'' []))
        [''inspect'']
     = \<lparr>success = True, data = None, output_text = Some ''{oops'', error = None\<rparr>
   \<and> run_rs_hack (deep_env [''rs-hack'', ''inspect''] (CompletedProcess 0 (nested_arrays 1200) []))
        [''inspect'']
     = \<lparr>success = False, data = None, output_text = None, error = Some recursion_error\<rparr>"
proof -
  let ?e1 = "sample_env [''rs-hack'', ''inspect''] (CompletedProcess 0 '' {} \<newline>'' [])"
  let ?e2 = "sample_env [''rs-hack'', ''inspect''] (CompletedProcess 0 ''{oops\<newline>'' [])"
  let ?e3 = "deep_env [''rs-hack'', ''inspect''] (CompletedProcess 0 (nested_arrays 1200) [])"
  have a1: "subprocess_run ?e1 (''rs-hack'' # [''inspect'']) = CompletedProcess 0 '' {} \<newline>'' []"
    by (simp add: sample_env_def)
  have a2: "startswith (strip '' {} \<newline>'') ''{'' \<or> startswith (strip '' {} \<newline>'') ''[''"
    by (simp add: strip_padded_object startswith_def)
  have a3: "json_loads ?e1 (strip '' {} \<newline>'') = Decoded Empty_object"
    by (simp add: strip_padded_object sample_env_def sample_loads_def)
  have b1: "subprocess_run ?e2 (''rs-hack'' # [''inspect'']) = CompletedProcess 0 ''{oops\<newline>'' []"
    by (simp add: sample_env_def)
  have b2: "startswith (strip ''{oops\<newline>'') ''{'' \<or> startswith (strip ''{oops\<newline>'') ''[''"
    by (simp add: strip_broken_object startswith_def)
  have b3: "json_loads ?e2 (strip ''{oops\<newline>'') = JSONDecodeError"
    by (simp add: strip_broken_object sample_env_def sample_loads_def)
  have c1: "subprocess_run ?e3 (''rs-hack'' # [''inspect''])
              = CompletedProcess 0 (nested_arrays 1200) []"
    by (simp add: deep_env_def)
  have c2: "startswith (strip (nested_arrays 1200)) ''{''
            \<or> startswith (strip (nested_arrays 1200)) ''[''"
    by (simp add: strip_nested_arrays startswith_nested_arrays)
  have c3: "json_loads ?e3 (strip (nested_arrays 1200)) = LoadsException recursion_error"
    by (simp add: strip_nested_arrays deep_env_def deep_loads_def)
  show ?thesis
    using run_rs_hack_exit_zero_json [OF a1 a2, of Empty_object]
      run_rs_hack_exit_zero_json [OF b1 b2, of Empty_object]
      run_rs_hack_exit_zero_json [OF c1 c2, of _ recursion_error] a3 b3 c3
    by (simp add: strip_broken_object)
qed

text \<open>
  C4: for every argument list, when running the executable raises
  \<open>FileNotFoundError\<close>, the bridge returns a failure whose message is the fixed
  installation hint, and so contains it.
\<close>

theorem run_rs_hack_not_found:
  assumes "subprocess_run e (''rs-hack'' # args) = FileNotFoundError"
  shows "run_rs_hack e args =
           \<lparr>success = False, data = None, output_text = None,
            error = Some ''rs-hack not found. Install with: cargo install rs-hack''\<rparr>
       \<and> (\<exists>m. error (run_rs_hack e args) = Some m
              \<and> contains ''rs-hack not found. Install with: cargo install rs-hack'' m)"
  using assms by (simp add: run_rs_hack_def startswith_def)

theorem run_rs_hack_not_found_witness:
  "subprocess_run (sample_env [''rs-hack'', ''--version''] FileNotFoundError)
       (''rs-hack'' # [''--version'']) = FileNotFoundError
   \<and> run_rs_hack (sample_env [''rs-hack'', ''--version''] FileNotFoundError) [''--version'']
     = \<lparr>success = False, data = None, output_text = None,
        error = Some ''rs-hack not found. Install with: cargo install rs-hack''\<rparr>"
proof -
  have h: "subprocess_run (sample_env [''rs-hack'', ''--version''] FileNotFoundError)
       (''rs-hack'' # [''--version'']) = FileNotFoundError"
    by (simp add: sample_env_def)
  show ?thesis
    using run_rs_hack_not_found [OF h] h by simp
qed

text \<open>
  C9: for every environment and argument list, the result of the bridge has exactly one
  of the three shapes: success with decoded data, success with output text, failure
  with an error message.
\<close>

theorem run_rs_hack_three_shapes:
  "(success_with_data (run_rs_hack e args) \<and> \<not> success_with_text (run_rs_hack e args)
      \<and> \<not> failure_with_message (run_rs_hack e args))
   \<or> (success_with_text (run_rs_hack e args) \<and> \<not> success_with_data (run_rs_hack e args)
      \<and> \<not> failure_with_message (run_rs_hack e args))
   \<or> (failure_with_message (run_rs_hack e args) \<and> \<not> success_with_data (run_rs_hack e args)
      \<and> \<not> success_with_text (run_rs_hack e args))"
  by (simp add: run_rs_hack_def Let_def success_with_data_def success_with_text_def
      failure_with_message_def split: run_outcome.splits loads_outcome.splits)

section \<open>Helper lemmas for the tools\<close>

lemmas tool_defs =
  inspect_struct_literals_def inspect_match_arms_def inspect_enum_usage_def
  inspect_macro_calls_def add_struct_field_def update_struct_field_def
  add_enum_variant_def rename_enum_variant_def add_match_arm_def transform_def
  add_derive_def show_history_def revert_operation_def

lemma startswith_Nil [simp]: "startswith s []"
  by (simp add: startswith_def)

lemma startswith_Nil_Cons [simp]: "\<not> startswith [] (d # ds)"
  by (simp add: startswith_def)

lemma startswith_Cons_Cons [simp]:
  "startswith (c # cs) (d # ds) \<longleftrightarrow> c = d \<and> startswith cs ds"
  by (auto simp: startswith_def)

lemma str_int_samples:
  "str_int 10 = ''10''" "str_int (- 5) = ''-5''" "str_int 0 = ''0''" "str_int 1234 = ''1234''"
  by code_simp+

lemma show_history_args_default: "show_history_args 10 = [''history'', ''--limit'', ''10'']"
  by (simp add: show_history_args_def str_int_samples)





text \<open>The flag rule, read off case by case.\<close>

lemma flag_pair_provided: "v \<noteq> [] \<Longrightarrow> flag_pair flag (Some v) = [flag, v]"
  by (simp add: flag_pair_def)

lemma flag_pair_omitted: "flag_pair flag None = []" "flag_pair flag (Some []) = []"
  by (simp_all add: flag_pair_def)

lemma flag_pair_truthy: "flag_pair flag p = (if truthy p then [flag, the p] else [])"
  by (simp add: flag_pair_def truthy_def split: option.splits)

text \<open>The guarded \<open>args.extend([flag, p])\<close> of the source is the flag rule.\<close>

lemma truthy_flag_pair:
  "(if truthy p then args @ [flag, the p] else args) = args @ flag_pair flag p"
  by (simp add: truthy_def flag_pair_def split: option.splits)

lemma truthy_and_flag_pair:
  "(if c \<and> truthy p then args @ [flag, the p] else args)
     = args @ (if c then flag_pair flag p else [])"
  by (simp add: truthy_def flag_pair_def split: option.splits)

lemma action_is_replace: "action_str action = ''replace'' \<longleftrightarrow> action = Act_replace"
  by (cases action) simp_all

lemma inspect_struct_literals_flags:
  "inspect_struct_literals_args path name fmt
     = [''inspect'', ''--path'', path, ''--node-type'', ''struct-literal'',
        ''--format'', format_str fmt]
       @ flag_pair ''--name'' name"
  by (simp add: inspect_struct_literals_args_def Let_def truthy_flag_pair)

lemma inspect_match_arms_flags:
  "inspect_match_arms_args path name fmt
     = [''inspect'', ''--path'', path, ''--node-type'', ''match-arm'',
        ''--format'', format_str fmt]
       @ flag_pair ''--name'' name"
  by (simp add: inspect_match_arms_args_def Let_def truthy_flag_pair)

lemma inspect_macro_calls_flags:
  "inspect_macro_calls_args path macro_name content_filter fmt
     = [''inspect'', ''--path'', path, ''--node-type'', ''macro-call'', ''--name'', macro_name,
        ''--format'', format_str fmt]
       @ flag_pair ''--content-filter'' content_filter"
  by (simp add: inspect_macro_calls_args_def Let_def truthy_flag_pair)

lemma add_struct_field_flags:
  "add_struct_field_args path struct_name field position literal_default apply
     = [''add-struct-field'', ''--path'', path, ''--struct-name'', struct_name, ''--field'', field]
       @ flag_pair ''--position'' position
       @ flag_pair ''--literal-default'' literal_default
       @ (if apply then [''--apply''] else [])"
  by (simp add: add_struct_field_args_def Let_def truthy_flag_pair)

lemma add_match_arm_flags:
  "add_match_arm_args path pattern body function_name enum_name auto_detect apply
     = [''add-match-arm'', ''--path'', path]
       @ (if auto_detect
          then [''--auto-detect'', ''--enum-name'', or_empty enum_name, ''--body'', body]
          else [''--pattern'', pattern, ''--body'', body])
       @ flag_pair ''--function'' function_name
       @ (if apply then [''--apply''] else [])"
  by (simp add: add_match_arm_args_def Let_def truthy_flag_pair)

lemma transform_flags:
  "transform_args path node_type action name content_filter replacement apply
     = [''transform'', ''--path'', path, ''--node-type'', node_type_str node_type,
        ''--action'', action_str action]
       @ flag_pair ''--name'' name
       @ flag_pair ''--content-filter'' content_filter
       @ (if action = Act_replace then flag_pair ''--with'' replacement else [])
       @ (if apply then [''--apply''] else [])"
  by (simp add: transform_args_def Let_def truthy_flag_pair truthy_and_flag_pair
      action_is_replace)

lemma add_derive_flags:
  "add_derive_args path target_type type_name derives where_filter apply
     = [''add-derive'', ''--path'', path, ''--target-type'', target_type_str target_type,
        ''--name'', type_name, ''--derives'', derives]
       @ flag_pair ''--where'' where_filter
       @ (if apply then [''--apply''] else [])"
  by (simp add: add_derive_args_def Let_def truthy_flag_pair)

text \<open>The bridge on a run that exits with code 0 and prints nothing.\<close>

lemma blank_run:
  "run_rs_hack (sample_env (''rs-hack'' # args) (CompletedProcess 0 [] [])) args
     = \<lparr>success = True, data = None, output_text = Some [], error = None\<rparr>"
  by (simp add: run_rs_hack_def sample_env_def strip_empty)

section \<open>Properties of the tools\<close>




text \<open>
  C6: \<open>add_enum_variant\<close> with path \<open>src/types.rs\<close>, enum name \<open>Status\<close>,
  variant \<open>Archived\<close> and \<open>apply\<close> false builds exactly the seven-token vector
  without \<open>--apply\<close> and, on a successful bridge result with empty output, returns
  the dry-run response; with \<open>apply\<close> true the vector ends in \<open>--apply\<close> and, on
  a successful result with empty output, the response is
  \<open>Successfully added enum variant\<close>.
\<close>

theorem add_enum_variant_scenario:
  "add_enum_variant_args ''src/types.rs'' ''Status'' ''Archived'' False
     = [''add-enum-variant'', ''--path'', ''src/types.rs'', ''--enum-name'', ''Status'',
        ''--variant'', ''Archived'']
   \<and> (run_rs_hack e [''add-enum-variant'', ''--path'', ''src/types.rs'', ''--enum-name'',
                      ''Status'', ''--variant'', ''Archived'']
        = \<lparr>success = True, data = None, output_text = Some [], error = None\<rparr>
      \<longrightarrow> add_enum_variant e ''src/types.rs'' ''Status'' ''Archived'' False
            = Inr ''DRY RUN - Preview:\<newline>\<newline>\<newline>Use apply=True to make changes.'')
   \<and> add_enum_variant_args ''src/types.rs'' ''Status'' ''Archived'' True
     = [''add-enum-variant'', ''--path'', ''src/types.rs'', ''--enum-name'', ''Status'',
        ''--variant'', ''Archived'', ''--apply'']
   \<and> (run_rs_hack e [''add-enum-variant'', ''--path'', ''src/types.rs'', ''--enum-name'',
                      ''Status'', ''--variant'', ''Archived'', ''--apply'']
        = \<lparr>success = True, data = None, output_text = Some [], error = None\<rparr>
      \<longrightarrow> add_enum_variant e ''src/types.rs'' ''Status'' ''Archived'' True
            = Inr ''Successfully added enum variant'')"
  by (simp add: add_enum_variant_args_def add_enum_variant_def get_output_def str_or_def)

theorem add_enum_variant_scenario_witness:
  "add_enum_variant
     (sample_env [''rs-hack'', ''add-enum-variant'', ''--path'', ''src/types.rs'', ''--enum-name'',
                  ''Status'', ''--variant'', ''Archived''] (CompletedProcess 0 [] []))
     ''src/types.rs'' ''Status'' ''Archived'' False
     = Inr ''DRY RUN - Preview:\<newline>\<newline>\<newline>Use apply=True to make changes.''
   \<and> add_enum_variant
     (sample_env [''rs-hack'', ''add-enum-variant'', ''--path'', ''src/types.rs'', ''--enum-name'',
                  ''Status'', ''--variant'', ''Archived'', ''--apply''] (CompletedProcess 0 [] []))
     ''src/types.rs'' ''Status'' ''Archived'' True
     = Inr ''Successfully added enum variant''"
proof -
  let ?dry = "[''add-enum-variant'', ''--path'', ''src/types.rs'', ''--enum-name'', ''Status'',
               ''--variant'', ''Archived'']"
  let ?applied = "[''add-enum-variant'', ''--path'', ''src/types.rs'', ''--enum-name'', ''Status'',
               ''--variant'', ''Archived'', ''--apply'']"
  have d: "run_rs_hack (sample_env (''rs-hack'' # ?dry) (CompletedProcess 0 [] [])) ?dry
             = \<lparr>success = True, data = None, output_text = Some [], error = None\<rparr>"
    by (rule blank_run)
  have a: "run_rs_hack (sample_env (''rs-hack'' # ?applied) (CompletedProcess 0 [] [])) ?applied
             = \<lparr>success = True, data = None, output_text = Some [], error = None\<rparr>"
    by (rule blank_run)
  show ?thesis
    using add_enum_variant_scenario [of "sample_env (''rs-hack'' # ?dry) (CompletedProcess 0 [] [])"]
      add_enum_variant_scenario [of "sample_env (''rs-hack'' # ?applied) (CompletedProcess 0 [] [])"]
      d a
    by blast
qed

text \<open>
  C7: \<open>revert_operation\<close> with run id \<open>a05a626\<close> builds the vector
  \<open>revert a05a626\<close> when \<open>force\<close> is false, and the same vector with \<open>--force\<close>
  appended when it is true. The last two conjuncts run the tool in an environment that
  answers exactly that command line.
\<close>

theorem revert_operation_vector:
  "revert_operation_args ''a05a626'' False = [''revert'', ''a05a626'']
   \<and> revert_operation_args ''a05a626'' True = [''revert'', ''a05a626'', ''--force'']
   \<and> revert_operation
        (sample_env [''rs-hack'', ''revert'', ''a05a626'']
           (CompletedProcess 0 ''Reverted 2 files\<newline>'' []))
        ''a05a626'' False = Inr ''Reverted 2 files''
   \<and> revert_operation
        (sample_env [''rs-hack'', ''revert'', ''a05a626'', ''--force'']
           (CompletedProcess 0 ''Reverted 2 files\<newline>'' []))
        ''a05a626'' True = Inr ''Reverted 2 files''"
  by (simp add: revert_operation_args_def revert_operation_def run_rs_hack_def sample_env_def
      get_output_def str_or_def strip_def lstrip_def rstrip_def is_space_def)

text \<open>
  C8: for every registered tool and every parameter set, when the bridge returns a
  failure with message \<open>m\<close>, the tool returns exactly \<open>Error: \<close> followed by
  \<open>m\<close>.
\<close>

theorem tool_error_line:
  assumes "success (run_rs_hack e (tool_args tc)) = False"
    and "error (run_rs_hack e (tool_args tc)) = Some m"
  shows "call_tool e tc = Inr (''Error: '' @ m)"
  using assms by (cases tc) (simp_all add: tool_defs Let_def error_line_def)

theorem tool_error_line_witness:
  "call_tool
     (sample_env [''rs-hack'', ''history'', ''--limit'', ''10'']
        (CompletedProcess 1 [] ''error: no history\<newline>''))
     (Show_history 10) = Inr ''Error: error: no history''
   \<and> call_tool
     (sample_env [''rs-hack'', ''inspect'', ''--path'', ''src/main.rs'', ''--node-type'',
                  ''struct-literal'', ''--format'', ''snippets''] FileNotFoundError)
     (Inspect_struct_literals ''src/main.rs'' None Fmt_snippets)
     = Inr ''Error: rs-hack not found. Install with: cargo install rs-hack''"
proof -
  let ?e1 = "sample_env [''rs-hack'', ''history'', ''--limit'', ''10'']
        (CompletedProcess 1 [] ''error: no history\<newline>'')"
  let ?e2 = "sample_env [''rs-hack'', ''inspect'', ''--path'', ''src/main.rs'', ''--node-type'',
                  ''struct-literal'', ''--format'', ''snippets''] FileNotFoundError"
  have r1: "run_rs_hack ?e1 (tool_args (Show_history 10))
              = \<lparr>success = False, data = None, output_text = None,
                 error = Some ''error: no history''\<rparr>"
    by (simp add: show_history_args_default run_rs_hack_def sample_env_def
        strip_def lstrip_def rstrip_def is_space_def)
  have r2: "run_rs_hack ?e2 (tool_args (Inspect_struct_literals ''src/main.rs'' None Fmt_snippets))
              = \<lparr>success = False, data = None, output_text = None,
                 error = Some ''rs-hack not found. Install with: cargo install rs-hack''\<rparr>"
    by (simp add: inspect_struct_literals_args_def truthy_def run_rs_hack_def sample_env_def)
  have a1: "success (run_rs_hack ?e1 (tool_args (Show_history 10))) = False"
    and a2: "error (run_rs_hack ?e1 (tool_args (Show_history 10))) = Some ''error: no history''"
    unfolding r1 by simp_all
  have b1: "success (run_rs_hack ?e2
              (tool_args (Inspect_struct_literals ''src/main.rs'' None Fmt_snippets))) = False"
    and b2: "error (run_rs_hack ?e2
              (tool_args (Inspect_struct_literals ''src/main.rs'' None Fmt_snippets)))
              = Some ''rs-hack not found. Install with: cargo install rs-hack''"
    unfolding r2 by simp_all
  show ?thesis
    using tool_error_line [OF a1 a2] tool_error_line [OF b1 b2] by simp
qed

text \<open>
  C10, as stated: for every optional string parameter, \<open>enum_name\<close> and
  \<open>replacement\<close> among them, the flag and its value are in the vector exactly when
  the parameter is provided and non-empty. It fails for those two:
  \<open>add_match_arm\<close> forwards \<open>--enum-name\<close> only under \<open>auto_detect\<close>, and then
  always, with an empty value when the parameter is left out; \<open>transform\<close> forwards
  \<open>--with\<close> only when the action is \<open>replace\<close>.
\<close>

theorem optional_flags_counterexample:
  "truthy (Some ''Status'')
   \<and> ''--enum-name'' \<notin> set (add_match_arm_args ''src/handler.rs'' ''Status::Archived''
                                 ''todo!()'' None (Some ''Status'') False False)
   \<and> \<not> truthy None
   \<and> add_match_arm_args ''src/handler.rs'' [] ''todo!()'' None None True False
       = [''add-match-arm'', ''--path'', ''src/handler.rs'', ''--auto-detect'', ''--enum-name'', [],
          ''--body'', ''todo!()'']
   \<and> truthy (Some ''new_fn'')
   \<and> ''--with'' \<notin> set (transform_args ''src/lib.rs'' Function_call Act_comment (Some ''old_fn'')
                           None (Some ''new_fn'') False)"
  by (simp add: truthy_def add_match_arm_args_def transform_args_def or_empty_def)

text \<open>
  C10, amended: for the optional string parameters \<open>name\<close>, \<open>position\<close>,
  \<open>literal_default\<close>, \<open>content_filter\<close>, \<open>function\<close> and \<open>where_filter\<close>,
  the flag and its value are in the built vector exactly when the parameter is provided
  and non-empty, and neither is added otherwise. \<open>replacement\<close> follows the same rule
  only when the action is \<open>replace\<close> and is never forwarded otherwise. \<open>enum_name\<close>
  of \<open>add_match_arm\<close> is forwarded exactly when \<open>auto_detect\<close> is true, as
  \<open>--enum-name\<close> and the given name, or the empty string when the name is left out.
  Each vector is the required tokens followed by \<open>flag_pair\<close> of each optional
  parameter.
\<close>

theorem optional_flags:
  "inspect_struct_literals_args path name fmt
     = [''inspect'', ''--path'', path, ''--node-type'', ''struct-literal'',
        ''--format'', format_str fmt]
       @ flag_pair ''--name'' name
   \<and> inspect_match_arms_args path name fmt
     = [''inspect'', ''--path'', path, ''--node-type'', ''match-arm'',
        ''--format'', format_str fmt]
       @ flag_pair ''--name'' name
   \<and> inspect_macro_calls_args path macro_name content_filter fmt
     = [''inspect'', ''--path'', path, ''--node-type'', ''macro-call'', ''--name'', macro_name,
        ''--format'', format_str fmt]
       @ flag_pair ''--content-filter'' content_filter
   \<and> add_struct_field_args path struct_name field position literal_default apply
     = [''add-struct-field'', ''--path'', path, ''--struct-name'', struct_name, ''--field'', field]
       @ flag_pair ''--position'' position
       @ flag_pair ''--literal-default'' literal_default
       @ (if apply then [''--apply''] else [])
   \<and> add_match_arm_args path pattern body function_name enum_name auto_detect apply
     = [''add-match-arm'', ''--path'', path]
       @ (if auto_detect
          then [''--auto-detect'', ''--enum-name'', or_empty enum_name, ''--body'', body]
          else [''--pattern'', pattern, ''--body'', body])
       @ flag_pair ''--function'' function_name
       @ (if apply then [''--apply''] else [])
   \<and> transform_args path node_type action name content_filter replacement apply
     = [''transform'', ''--path'', path, ''--node-type'', node_type_str node_type,
        ''--action'', action_str action]
       @ flag_pair ''--name'' name
       @ flag_pair ''--content-filter'' content_filter
       @ (if action = Act_replace then flag_pair ''--with'' replacement else [])
       @ (if apply then [''--apply''] else [])
   \<and> add_derive_args path target_type type_name derives where_filter apply
     = [''add-derive'', ''--path'', path, ''--target-type'', target_type_str target_type,
        ''--name'', type_name, ''--derives'', derives]
       @ flag_pair ''--where'' where_filter
       @ (if apply then [''--apply''] else [])"
  by (intro conjI inspect_struct_literals_flags inspect_match_arms_flags
      inspect_macro_calls_flags add_struct_field_flags add_match_arm_flags transform_flags
      add_derive_flags)

end
